theory Spec2Isabelle
  imports Main
begin

section \<open>Values that cross the JavaScript boundary\<close>

text \<open>
  Strings are lists of code units below 256. A thrown value is an Error object with its
  \<open>name\<close> and \<open>message\<close>; errors raised inside the interpreter arrive as a
  \<open>PythonError\<close> whose message is the Python traceback.
\<close>

record js_error =
  error_name :: string
  message :: string

definition error_toString :: "js_error \<Rightarrow> string" where
  \<comment> \<open>Error.prototype.toString\<close>
  "error_toString e =
     (if error_name e = [] then message e
      else if message e = [] then error_name e
      else error_name e @ '': '' @ message e)"

text \<open>
  The result of an evaluation is only tested against \<open>undefined\<close> and \<open>null\<close> and
  then passed to \<open>String\<close>, so any other value is carried as the text \<open>String\<close> gives.
  \<open>String\<close> is taken to return for every value the interpreter hands back.
\<close>

datatype js_value = Undefined | Null | Value string

fun String_js :: "js_value \<Rightarrow> string" where
  "String_js Undefined = ''undefined''"
| "String_js Null = ''null''"
| "String_js (Value s) = s"

definition is_space :: "char \<Rightarrow> bool" where
  \<comment> \<open>WhiteSpace and LineTerminator code units below 256: TAB, LF, VT, FF, CR, SP, NBSP\<close>
  "is_space c = (c \<in> set [CHR 0x09, CHR 0x0A, CHR 0x0B, CHR 0x0C, CHR 0x0D, CHR 0x20, CHR 0xA0])"

definition trim :: "string \<Rightarrow> string" where
  \<comment> \<open>String.prototype.trim\<close>
  "trim s = rev (dropWhile is_space (rev (dropWhile is_space s)))"

fun str_includes :: "string \<Rightarrow> string \<Rightarrow> bool" where
  \<comment> \<open>String.prototype.includes\<close>
  "str_includes [] p = (p = [])"
| "str_includes (c # cs) p = (take (length p) (c # cs) = p \<or> str_includes cs p)"

section \<open>The interpreter: standard streams and the OutputCapture class\<close>

text \<open>
  A stream object (the console streams of the runtime, or a StringIO buffer) is an index
  into \<open>streams\<close>, which holds the text written to each object so far. \<open>sys_stdout\<close>
  and \<open>sys_stderr\<close> are the objects currently bound to \<open>sys.stdout\<close> and
  \<open>sys.stderr\<close>; \<open>output_capture\<close> is the global \<open>_output_capture\<close>, \<open>None\<close>
  while the name is unbound.
\<close>

type_synonym stream = nat

record OutputCapture =
  stdout :: stream
  stderr :: stream
  original_stdout :: stream
  original_stderr :: stream

record py_state =
  sys_stdout :: stream
  sys_stderr :: stream
  streams :: "string list"
  output_capture :: "OutputCapture option"

definition reset :: "py_state \<Rightarrow> OutputCapture \<times> py_state" where
  \<comment> \<open>two fresh StringIO objects, then a snapshot of the current sys.stdout and sys.stderr;
      all four fields of self are overwritten, the new self is returned\<close>
  "reset py =
     (\<lparr>stdout = length (streams py),
       stderr = Suc (length (streams py)),
       original_stdout = sys_stdout py,
       original_stderr = sys_stderr py\<rparr>,
      py\<lparr>streams := streams py @ [[], []]\<rparr>)"

definition start_capture :: "OutputCapture \<Rightarrow> py_state \<Rightarrow> py_state" where
  "start_capture self py = py\<lparr>sys_stdout := stdout self, sys_stderr := stderr self\<rparr>"

definition stop_capture :: "OutputCapture \<Rightarrow> py_state \<Rightarrow> (string \<times> string) \<times> py_state" where
  "stop_capture self py =
     (let py1 = py\<lparr>sys_stdout := original_stdout self, sys_stderr := original_stderr self\<rparr>;
          stdout_value = streams py1 ! stdout self;
          stderr_value = streams py1 ! stderr self
      in ((stdout_value, stderr_value), py1))"

subsection \<open>The scripts handed to runPython\<close>

type_synonym 'a script = "py_state \<Rightarrow> (js_error + 'a) \<times> py_state"

definition NameError :: js_error where
  \<comment> \<open>raised by a script that names \<open>_output_capture\<close> while it is unbound\<close>
  "NameError =
     \<lparr>error_name = ''PythonError'',
      message = ''Traceback (most recent call last): NameError: name _output_capture is not defined''\<rparr>"

definition setup_script :: "js_error option \<Rightarrow> unit script" where
  \<comment> \<open>the script of setupPythonEnvironment: imports, the class, then
      \<open>_output_capture = OutputCapture()\<close>, whose constructor calls reset. \<open>fault = Some e\<close>
      is the runtime raising \<open>e\<close> before that last assignment (a failing import).\<close>
  "setup_script fault py =
     (case fault of
        Some e \<Rightarrow> (Inl e, py)
      | None \<Rightarrow> (case reset py of (self, py1) \<Rightarrow> (Inr (), py1\<lparr>output_capture := Some self\<rparr>)))"

definition reset_script :: "unit script" where
  \<comment> \<open>\<open>_output_capture.reset()\<close>\<close>
  "reset_script py =
     (case output_capture py of
        None \<Rightarrow> (Inl NameError, py)
      | Some _ \<Rightarrow> (case reset py of (self, py1) \<Rightarrow> (Inr (), py1\<lparr>output_capture := Some self\<rparr>)))"

definition start_script :: "unit script" where
  \<comment> \<open>\<open>_output_capture.start_capture()\<close>\<close>
  "start_script py =
     (case output_capture py of
        None \<Rightarrow> (Inl NameError, py)
      | Some self \<Rightarrow> (Inr (), start_capture self py))"

definition stop_script :: "(string \<times> string) script" where
  \<comment> \<open>\<open>_output_capture.stop_capture()\<close>\<close>
  "stop_script py =
     (case output_capture py of
        None \<Rightarrow> (Inl NameError, py)
      | Some self \<Rightarrow> (case stop_capture self py of (v, py1) \<Rightarrow> (Inr v, py1)))"

definition stop_twice_script :: "(string \<times> string) script" where
  \<comment> \<open>the three-line script of the success path: stop_capture is called, called again,
      and the second call's pair is the value\<close>
  "stop_twice_script py =
     (case stop_script py of
        (Inl e, py1) \<Rightarrow> (Inl e, py1)
      | (Inr _, py1) \<Rightarrow> stop_script py1)"

text \<open>
  What one evaluation of the user's program does is an input of the model: the text it
  writes to the objects bound to sys.stdout and sys.stderr at that moment, whether it
  unbinds the global \<open>_output_capture\<close> (\<open>del _output_capture\<close>), and how it ends, with
  the value of its last expression or with an exception.
\<close>

record effect =
  writes_stdout :: string
  writes_stderr :: string
  unbinds_capture :: bool
  completion :: "js_error + js_value"

definition write_stream :: "stream \<Rightarrow> string \<Rightarrow> string list \<Rightarrow> string list" where
  "write_stream s text ss = ss[s := ss ! s @ text]"

definition user_script :: "effect \<Rightarrow> js_value script" where
  "user_script eff py =
     (completion eff,
      py\<lparr>streams := write_stream (sys_stderr py) (writes_stderr eff)
                       (write_stream (sys_stdout py) (writes_stdout eff) (streams py)),
         output_capture := (if unbinds_capture eff then None else output_capture py)\<rparr>)"

section \<open>PythonRunner\<close>

datatype line_type = System | Stdout | Stderr

type_synonym line = "line_type \<times> string"

datatype call = SetupCall | ResetCall | StartCall | UserCall string | StopCall | StopTwiceCall

text \<open>
  \<open>outputElement\<close> is the sequence of appendOutput calls (the type and the content of each;
  the time stamp and the 1000-line cap belong to the rendering). \<open>executed\<close> lists the
  scripts that reached an interpreter through runPython. The four fields of \<open>page\<close> are
  the elements of the document the runner writes to.
\<close>

record page =
  statusText :: string
  loadingIndicator :: bool
  loadingOverlay :: bool
  runBtnDisabled :: bool

record PythonRunner = page +
  pyodide :: "py_state option"
  isLoading :: bool
  isRunning :: bool
  outputElement :: "line list"
  executed :: "call list"

definition appendOutput :: "string \<Rightarrow> line_type \<Rightarrow> PythonRunner \<Rightarrow> PythonRunner" where
  "appendOutput content type r = r\<lparr>outputElement := outputElement r @ [(type, content)]\<rparr>"

definition showLoading :: "bool \<Rightarrow> PythonRunner \<Rightarrow> PythonRunner" where
  "showLoading show r = r\<lparr>loadingIndicator := show\<rparr>"

definition hideLoadingOverlay :: "PythonRunner \<Rightarrow> PythonRunner" where
  "hideLoadingOverlay r = r\<lparr>loadingOverlay := False\<rparr>"

definition updateStatus :: "string \<Rightarrow> PythonRunner \<Rightarrow> PythonRunner" where
  "updateStatus msg r = r\<lparr>statusText := msg\<rparr>"

definition updateRunButton :: "bool \<Rightarrow> PythonRunner \<Rightarrow> PythonRunner" where
  "updateRunButton running r = r\<lparr>runBtnDisabled := running\<rparr>"

definition null_TypeError :: js_error where
  \<comment> \<open>calling a method on the null handle\<close>
  "null_TypeError =
     \<lparr>error_name = ''TypeError'',
      message = ''Cannot read properties of null (reading runPython)''\<rparr>"

definition runPython :: "call \<Rightarrow> 'a script \<Rightarrow> PythonRunner \<Rightarrow> (js_error + 'a) \<times> PythonRunner" where
  \<comment> \<open>\<open>this.pyodide.runPython(...)\<close>\<close>
  "runPython c scr r =
     (case pyodide r of
        None \<Rightarrow> (Inl null_TypeError, r)
      | Some py \<Rightarrow>
          (case scr py of
             (res, py1) \<Rightarrow> (res, r\<lparr>pyodide := Some py1, executed := executed r @ [c]\<rparr>)))"

subsection \<open>Construction and initialisation\<close>

text \<open>
  init suspends at \<open>await loadPyodide\<close>. \<open>init_begin\<close> is the part before the
  suspension; \<open>init_complete\<close> is the continuation, given what the load delivered.
\<close>

datatype boot =
    LoadRejected js_error
  | Loaded py_state "js_error option"

definition setupPythonEnvironment :: "js_error option \<Rightarrow> PythonRunner \<Rightarrow> (js_error + unit) \<times> PythonRunner" where
  "setupPythonEnvironment fault r = runPython SetupCall (setup_script fault) r"

definition init_begin :: "PythonRunner \<Rightarrow> PythonRunner" where
  "init_begin r = showLoading True (updateStatus ''Loading Python environment...'' r)"

definition init_catch :: "js_error \<Rightarrow> PythonRunner \<Rightarrow> PythonRunner" where
  "init_catch error r =
     appendOutput (''Error initializing Python: '' @ message error) Stderr
       (hideLoadingOverlay (showLoading False
          (updateStatus ''Python failed to load'' (r\<lparr>isLoading := False\<rparr>))))"

definition init_complete :: "boot \<Rightarrow> PythonRunner \<Rightarrow> PythonRunner" where
  "init_complete b r =
     (case b of
        LoadRejected error \<Rightarrow> init_catch error r
      | Loaded py fault \<Rightarrow>
          (case setupPythonEnvironment fault (r\<lparr>pyodide := Some py\<rparr>) of
             (Inl error, r1) \<Rightarrow> init_catch error r1
           | (Inr _, r1) \<Rightarrow>
               appendOutput ''You can now run Python code.'' System
                 (appendOutput ''Python environment initialized successfully!'' System
                    (hideLoadingOverlay (showLoading False
                       (updateStatus ''Python ready'' (r1\<lparr>isLoading := False\<rparr>)))))))"

definition init :: "boot \<Rightarrow> PythonRunner \<Rightarrow> PythonRunner" where
  "init b r = init_complete b (init_begin r)"

definition new_PythonRunner :: "page \<Rightarrow> PythonRunner" where
  \<comment> \<open>the constructor, up to the suspension of the init it starts\<close>
  "new_PythonRunner p =
     init_begin
       \<lparr>statusText = statusText p, loadingIndicator = loadingIndicator p,
        loadingOverlay = loadingOverlay p, runBtnDisabled = runBtnDisabled p,
        pyodide = None, isLoading = True, isRunning = False, outputElement = [], executed = []\<rparr>"

subsection \<open>runCode\<close>

text \<open>
  runCode is declared async but contains no await: a call runs to its end before any
  other handler. The editor is taken to exist, so getValue returns; what it returns is the
  argument \<open>text\<close>. Writing to the browser console is left out. In formatPythonError
  the source guards \<open>error.toString()\<close> with a try; on an Error object toString
  returns, so the catch arm is never entered and has no branch here.
\<close>

definition formatPythonError :: "js_error \<Rightarrow> string" where
  "formatPythonError error =
     (let errorStr = error_toString error
      in if str_includes errorStr ''Traceback'' then errorStr else ''Error: '' @ errorStr)"

definition display :: "js_value \<Rightarrow> string \<Rightarrow> string \<Rightarrow> PythonRunner \<Rightarrow> PythonRunner" where
  \<comment> \<open>the four consecutive if statements after a successful evaluation\<close>
  "display result capturedStdout capturedStderr r =
     (let r1 = (if capturedStdout \<noteq> [] then appendOutput (trim capturedStdout) Stdout r else r);
          r2 = (if capturedStderr \<noteq> [] then appendOutput (trim capturedStderr) Stderr r1 else r1);
          r3 = (if result \<noteq> Undefined \<and> result \<noteq> Null \<and> capturedStdout = []
                then appendOutput (String_js result) Stdout r2 else r2)
      in if capturedStdout = [] \<and> capturedStderr = []
         then appendOutput ''Code executed successfully (no output)'' System r3 else r3)"

definition python_catch :: "js_error \<Rightarrow> PythonRunner \<Rightarrow> PythonRunner" where
  \<comment> \<open>the inner catch: stop the capture, ignoring a failure of that, then show the error\<close>
  "python_catch pythonError r =
     appendOutput (formatPythonError pythonError) Stderr
       (snd (runPython StopCall stop_script r))"

definition run_inner :: "string \<Rightarrow> effect \<Rightarrow> PythonRunner \<Rightarrow> PythonRunner" where
  \<comment> \<open>the inner try with its catch\<close>
  "run_inner code eff r =
     (case runPython (UserCall code) (user_script eff) r of
        (Inl pythonError, r1) \<Rightarrow> python_catch pythonError r1
      | (Inr result, r1) \<Rightarrow>
          (case runPython StopTwiceCall stop_twice_script r1 of
             (Inl pythonError, r2) \<Rightarrow> python_catch pythonError r2
           | (Inr (capturedStdout, capturedStderr), r2) \<Rightarrow>
               display result capturedStdout capturedStderr r2))"

definition run_catch :: "js_error \<Rightarrow> PythonRunner \<Rightarrow> PythonRunner" where
  \<comment> \<open>the outer catch\<close>
  "run_catch error r = appendOutput (''Runtime Error: '' @ message error) Stderr r"

definition run_try :: "string \<Rightarrow> effect \<Rightarrow> PythonRunner \<Rightarrow> PythonRunner" where
  \<comment> \<open>the outer try with its catch\<close>
  "run_try code eff r =
     (let r1 = appendOutput ''>>> Running Python code...'' System r
      in case runPython ResetCall reset_script r1 of
           (Inl error, r2) \<Rightarrow> run_catch error r2
         | (Inr _, r2) \<Rightarrow>
             (case runPython StartCall start_script r2 of
                (Inl error, r3) \<Rightarrow> run_catch error r3
              | (Inr _, r3) \<Rightarrow> run_inner code eff r3))"

definition run_finally :: "PythonRunner \<Rightarrow> PythonRunner" where
  "run_finally r =
     appendOutput ''>>> Execution complete.'' System
       (updateRunButton False (showLoading False (r\<lparr>isRunning := False\<rparr>)))"

definition run_start :: "PythonRunner \<Rightarrow> PythonRunner" where
  \<comment> \<open>the three statements between the guards and the try\<close>
  "run_start r = updateRunButton True (showLoading True (r\<lparr>isRunning := True\<rparr>))"

definition runCode :: "string \<Rightarrow> effect \<Rightarrow> PythonRunner \<Rightarrow> PythonRunner" where
  \<comment> \<open>\<open>text\<close> is what the editor's getValue returns; \<open>eff\<close> is what the interpreter does
      if the code comes to be evaluated\<close>
  "runCode text eff r =
     (if isLoading r then
        appendOutput ''Python environment is still loading. Please wait...'' System r
      else if isRunning r then
        appendOutput ''Code is already running. Please wait...'' System r
      else
        (let code = trim text
         in if code = [] then appendOutput ''No code to execute.'' System r
            else run_finally (run_try code eff (run_start r))))"

fun run_all :: "(string \<times> effect) list \<Rightarrow> PythonRunner \<Rightarrow> PythonRunner" where
  \<comment> \<open>successive run requests, each with the editor text and the interpreter's behaviour\<close>
  "run_all [] r = r"
| "run_all ((text, eff) # rest) r = run_all rest (runCode text eff r)"

definition isReady :: "PythonRunner \<Rightarrow> bool" where
  "isReady r = (\<not> isLoading r \<and> pyodide r \<noteq> None)"

section \<open>Vocabulary of the specification\<close>

text \<open>
  The specification speaks of five execution states; the runner has two flags, the handle
  and the status line. A runner is Loading while \<open>isLoading\<close> holds, Running while
  \<open>isRunning\<close> holds, and otherwise Failed or Ready according to the status line that
  init left. No runner is ever Uninitialized: the constructor sets \<open>isLoading\<close> and
  starts init at once.
\<close>

datatype ExecutionState = Uninitialized | Loading | Ready | Failed | Running

definition state_of :: "PythonRunner \<Rightarrow> ExecutionState" where
  "state_of r =
     (if isLoading r then Loading
      else if isRunning r then Running
      else if statusText r = ''Python failed to load'' then Failed
      else Ready)"

definition rejected :: "PythonRunner \<Rightarrow> PythonRunner \<Rightarrow> bool" where
  \<comment> \<open>a rejected request: one System line, and nothing else changes\<close>
  "rejected r r1 =
     (case drop (length (outputElement r)) (outputElement r1) of
        [(System, msg)] \<Rightarrow> r1 = r\<lparr>outputElement := outputElement r @ [(System, msg)]\<rparr>
      | _ \<Rightarrow> False)"


definition no_stdout_after_stderr :: "line_type list \<Rightarrow> bool" where
  \<comment> \<open>the order system-start, stdout, stderr-or-error, system-end puts no Stdout line
      after a Stderr line\<close>
  "no_stdout_after_stderr ts = (Stdout \<notin> set (dropWhile (\<lambda>t. t \<noteq> Stderr) ts))"

subsection \<open>A page and an interpreter to start from\<close>

definition blank_page :: page where
  "blank_page =
     \<lparr>statusText = [], loadingIndicator = False, loadingOverlay = True, runBtnDisabled = False\<rparr>"

definition console_python :: py_state where
  \<comment> \<open>a newly loaded interpreter: sys.stdout and sys.stderr are the two console streams\<close>
  "console_python =
     \<lparr>sys_stdout = 0, sys_stderr = 1, streams = [[], []], output_capture = None\<rparr>"

definition ready_runner :: PythonRunner where
  "ready_runner = init_complete (Loaded console_python None) (new_PythonRunner blank_page)"

subsection \<open>Some programs\<close>

definition prints_hi :: effect where
  \<comment> \<open>\<open>print('hi')\<close>\<close>
  "prints_hi =
     \<lparr>writes_stdout = ''hi'' @ [CHR 0x0A], writes_stderr = [], unbinds_capture = False,
      completion = Inr Undefined\<rparr>"

definition value_two :: effect where
  \<comment> \<open>\<open>1+1\<close>\<close>
  "value_two =
     \<lparr>writes_stdout = [], writes_stderr = [], unbinds_capture = False,
      completion = Inr (Value ''2'')\<rparr>"

definition warns_then_value :: effect where
  \<comment> \<open>a program that writes \<open>warn\<close> to sys.stderr and whose last expression is 42\<close>
  "warns_then_value =
     \<lparr>writes_stdout = [], writes_stderr = ''warn'', unbinds_capture = False,
      completion = Inr (Value ''42'')\<rparr>"

definition ZeroDivisionError :: js_error where
  "ZeroDivisionError =
     \<lparr>error_name = ''PythonError'',
      message = ''Traceback (most recent call last): ZeroDivisionError: division by zero''\<rparr>"

definition prints_then_raises :: effect where
  \<comment> \<open>\<open>print('hi'); 1/0\<close>\<close>
  "prints_then_raises =
     \<lparr>writes_stdout = ''hi'' @ [CHR 0x0A], writes_stderr = [], unbinds_capture = False,
      completion = Inl ZeroDivisionError\<rparr>"

definition unbinds_then_raises :: effect where
  \<comment> \<open>\<open>del _output_capture; 1/0\<close>\<close>
  "unbinds_then_raises =
     \<lparr>writes_stdout = [], writes_stderr = [], unbinds_capture = True,
      completion = Inl ZeroDivisionError\<rparr>"

definition RangeError :: js_error where
  \<comment> \<open>an error of the JavaScript engine, with no Python traceback\<close>
  "RangeError =
     \<lparr>error_name = ''RangeError'', message = ''Maximum call stack size exceeded''\<rparr>"

definition overflows :: effect where
  \<comment> \<open>a program whose evaluation exhausts the stack of the engine\<close>
  "overflows =
     \<lparr>writes_stdout = [], writes_stderr = [], unbinds_capture = False,
      completion = Inl RangeError\<rparr>"

definition network_error :: js_error where
  "network_error = \<lparr>error_name = ''TypeError'', message = ''Failed to fetch''\<rparr>"

definition ModuleNotFoundError :: js_error where
  "ModuleNotFoundError =
     \<lparr>error_name = ''PythonError'',
      message = ''Traceback (most recent call last): ModuleNotFoundError: No module named traceback''\<rparr>"

definition load_failed_runner :: PythonRunner where
  \<comment> \<open>loadPyodide rejected\<close>
  "load_failed_runner = init_complete (LoadRejected network_error) (new_PythonRunner blank_page)"

definition setup_failed_runner :: PythonRunner where
  \<comment> \<open>loadPyodide resolved, then the setup script raised\<close>
  "setup_failed_runner =
     init_complete (Loaded console_python (Some ModuleNotFoundError)) (new_PythonRunner blank_page)"

section \<open>Unfolding\<close>

lemmas ui_defs = appendOutput_def showLoading_def hideLoadingOverlay_def updateStatus_def
  updateRunButton_def

lemmas script_defs = reset_def start_capture_def stop_capture_def setup_script_def
  reset_script_def start_script_def stop_script_def stop_twice_script_def user_script_def
  write_stream_def

lemmas run_defs = runPython_def run_start_def run_finally_def run_try_def run_catch_def
  run_inner_def python_catch_def display_def

lemmas init_defs = init_def init_begin_def init_complete_def init_catch_def
  setupPythonEnvironment_def new_PythonRunner_def

lemmas start_defs = blank_page_def console_python_def ready_runner_def prints_hi_def
  value_two_def warns_then_value_def ZeroDivisionError_def prints_then_raises_def
  unbinds_then_raises_def network_error_def ModuleNotFoundError_def load_failed_runner_def
  setup_failed_runner_def RangeError_def overflows_def

section \<open>Facts about the concrete runners\<close>

lemma trim_examples:
  "trim ''print(1)'' = ''print(1)''" "trim ''1+1'' = ''1+1''" "trim ''w()'' = ''w()''"
  "trim ''1/0'' = ''1/0''" "trim [CHR 0x20, CHR 0x0A] = []" "trim [] = []"
  by (simp_all add: trim_def is_space_def)

lemma new_runner_fields:
  "isLoading (new_PythonRunner p)" "\<not> isRunning (new_PythonRunner p)"
  "pyodide (new_PythonRunner p) = None" "outputElement (new_PythonRunner p) = []"
  "executed (new_PythonRunner p) = []"
  by (simp_all add: init_defs ui_defs)

lemma ready_runner_eq:
  "ready_runner =
     \<lparr>statusText = ''Python ready'', loadingIndicator = False, loadingOverlay = False,
      runBtnDisabled = False,
      pyodide = Some \<lparr>sys_stdout = 0, sys_stderr = 1, streams = [[], [], [], []],
          output_capture =
            Some \<lparr>stdout = 2, stderr = 3, original_stdout = 0, original_stderr = 1\<rparr>\<rparr>,
      isLoading = False, isRunning = False,
      outputElement = [(System, ''Python environment initialized successfully!''),
         (System, ''You can now run Python code.'')],
      executed = [SetupCall]\<rparr>"
  by (simp add: start_defs init_defs ui_defs runPython_def script_defs)

lemma ready_runner_fields:
  "\<not> isLoading ready_runner" "\<not> isRunning ready_runner"
  "pyodide ready_runner = Some \<lparr>sys_stdout = 0, sys_stderr = 1, streams = [[], [], [], []],
      output_capture =
        Some \<lparr>stdout = 2, stderr = 3, original_stdout = 0, original_stderr = 1\<rparr>\<rparr>"
  "outputElement ready_runner = [(System, ''Python environment initialized successfully!''),
      (System, ''You can now run Python code.'')]"
  "executed ready_runner = [SetupCall]"
  by (simp_all add: ready_runner_eq)

lemma load_failed_runner_eq:
  "load_failed_runner =
     \<lparr>statusText = ''Python failed to load'', loadingIndicator = False,
      loadingOverlay = False, runBtnDisabled = False,
      pyodide = None, isLoading = False, isRunning = False,
      outputElement = [(Stderr, ''Error initializing Python: Failed to fetch'')],
      executed = []\<rparr>"
  by (simp add: start_defs init_defs ui_defs)

lemma setup_failed_runner_eq:
  "setup_failed_runner =
     \<lparr>statusText = ''Python failed to load'', loadingIndicator = False,
      loadingOverlay = False, runBtnDisabled = False,
      pyodide = Some \<lparr>sys_stdout = 0, sys_stderr = 1, streams = [[], []],
          output_capture = None\<rparr>,
      isLoading = False, isRunning = False,
      outputElement = [(Stderr, ''Error initializing Python: '' @ message ModuleNotFoundError)],
      executed = [SetupCall]\<rparr>"
  by (simp add: start_defs init_defs ui_defs runPython_def script_defs)

section \<open>The guards of runCode\<close>

lemma runCode_loading:
  "isLoading r \<Longrightarrow> runCode text eff r =
     r\<lparr>outputElement := outputElement r @
          [(System, ''Python environment is still loading. Please wait...'')]\<rparr>"
  by (simp add: runCode_def appendOutput_def)

lemma runCode_running:
  "\<not> isLoading r \<Longrightarrow> isRunning r \<Longrightarrow> runCode text eff r =
     r\<lparr>outputElement := outputElement r @
          [(System, ''Code is already running. Please wait...'')]\<rparr>"
  by (simp add: runCode_def appendOutput_def)

lemma runCode_empty:
  "\<not> isLoading r \<Longrightarrow> \<not> isRunning r \<Longrightarrow> trim text = [] \<Longrightarrow> runCode text eff r =
     r\<lparr>outputElement := outputElement r @ [(System, ''No code to execute.'')]\<rparr>"
  by (simp add: runCode_def appendOutput_def)

lemma runCode_accepted:
  "\<not> isLoading r \<Longrightarrow> \<not> isRunning r \<Longrightarrow> trim text \<noteq> [] \<Longrightarrow>
     runCode text eff r = run_finally (run_try (trim text) eff (run_start r))"
  by (simp add: runCode_def Let_def)

lemma run_all_running:
  "\<not> isLoading r \<Longrightarrow> isRunning r \<Longrightarrow> run_all reqs r =
     r\<lparr>outputElement := outputElement r @
          replicate (length reqs) (System, ''Code is already running. Please wait...'')\<rparr>"
proof (induction reqs arbitrary: r)
  case Nil
  then show ?case by simp
next
  case (Cons q reqs)
  obtain t e where q: "q = (t, e)" by (cases q)
  let ?r1 = "runCode t e r"
  have r1: "?r1 = r\<lparr>outputElement := outputElement r @
                      [(System, ''Code is already running. Please wait...'')]\<rparr>"
    using Cons.prems by (rule runCode_running)
  have "\<not> isLoading ?r1" "isRunning ?r1" using Cons.prems by (simp_all add: r1)
  from Cons.IH[OF this] show ?case
    by (simp add: q r1 replicate_append_same)
qed

lemma run_start_fields:
  "isRunning (run_start r)" "isLoading (run_start r) = isLoading r"
  "pyodide (run_start r) = pyodide r" "executed (run_start r) = executed r"
  "outputElement (run_start r) = outputElement r"
  by (simp_all add: run_start_def ui_defs)

lemma rejectedI:
  "r1 = r\<lparr>outputElement := outputElement r @ [(System, msg)]\<rparr> \<Longrightarrow> rejected r r1"
  by (simp add: rejected_def)

text \<open>
  C1. A call of runCode while the runner is loading appends the single System line
  "Python environment is still loading. Please wait..." and changes nothing else. A call
  while it is running appends the single System line "Code is already running. Please
  wait..." and changes nothing else, so that any sequence of calls made in that state
  leaves the runner as it was but for one such line per call: none of them reaches the
  interpreter. A call made when the runner is neither loading nor running, with source
  text that is not blank, is accepted and puts the runner into that running state, in
  which every further call is refused: at most one request is in flight.
\<close>

theorem run_guards:
  "(isLoading r \<longrightarrow>
      runCode text eff r =
        r\<lparr>outputElement := outputElement r @
             [(System, ''Python environment is still loading. Please wait...'')]\<rparr>)
   \<and> (\<not> isLoading r \<and> isRunning r \<longrightarrow>
        runCode text eff r =
          r\<lparr>outputElement := outputElement r @
               [(System, ''Code is already running. Please wait...'')]\<rparr>
        \<and> run_all reqs r =
          r\<lparr>outputElement := outputElement r @
               replicate (length reqs) (System, ''Code is already running. Please wait...'')\<rparr>)
   \<and> (\<not> isLoading r \<and> \<not> isRunning r \<and> trim text \<noteq> [] \<longrightarrow>
        runCode text eff r = run_finally (run_try (trim text) eff (run_start r))
        \<and> \<not> isLoading (run_start r) \<and> isRunning (run_start r)
        \<and> run_all reqs (run_start r) =
          (run_start r)\<lparr>outputElement := outputElement r @
               replicate (length reqs) (System, ''Code is already running. Please wait...'')\<rparr>)"
  by (simp add: runCode_loading runCode_running run_all_running runCode_accepted run_start_fields)

theorem run_guards_witness:
  "isLoading (new_PythonRunner blank_page)
   \<and> outputElement (runCode ''print(1)'' prints_hi (new_PythonRunner blank_page)) =
       [(System, ''Python environment is still loading. Please wait...'')]
   \<and> \<not> isLoading (run_start ready_runner) \<and> isRunning (run_start ready_runner)
   \<and> run_all [(''print(1)'', prints_hi), (''1+1'', value_two)] (run_start ready_runner) =
       (run_start ready_runner)\<lparr>outputElement := outputElement ready_runner @
          [(System, ''Code is already running. Please wait...''),
           (System, ''Code is already running. Please wait...'')]\<rparr>
   \<and> \<not> isLoading ready_runner \<and> \<not> isRunning ready_runner \<and> trim ''print(1)'' \<noteq> []
   \<and> runCode ''print(1)'' prints_hi ready_runner =
       run_finally (run_try ''print(1)'' prints_hi (run_start ready_runner))"
proof -
  have a: "isLoading (new_PythonRunner blank_page)" by (simp add: new_runner_fields)
  have b: "\<not> isLoading (run_start ready_runner) \<and> isRunning (run_start ready_runner)"
    by (simp add: run_start_fields ready_runner_fields)
  have c: "\<not> isLoading ready_runner \<and> \<not> isRunning ready_runner \<and> trim ''print(1)'' \<noteq> []"
    by (simp add: ready_runner_fields trim_examples)
  have "outputElement (runCode ''print(1)'' prints_hi (new_PythonRunner blank_page)) =
       [(System, ''Python environment is still loading. Please wait...'')]"
    using run_guards[of "new_PythonRunner blank_page" "''print(1)''" prints_hi] a
    by (simp add: new_runner_fields)
  moreover have "run_all [(''print(1)'', prints_hi), (''1+1'', value_two)] (run_start ready_runner) =
       (run_start ready_runner)\<lparr>outputElement := outputElement ready_runner @
          [(System, ''Code is already running. Please wait...''),
           (System, ''Code is already running. Please wait...'')]\<rparr>"
    using run_guards[of "run_start ready_runner" "[]" prints_hi
        "[(''print(1)'', prints_hi), (''1+1'', value_two)]"] b
    by (simp add: run_start_fields)
  moreover have "runCode ''print(1)'' prints_hi ready_runner =
       run_finally (run_try ''print(1)'' prints_hi (run_start ready_runner))"
    using run_guards[of ready_runner "''print(1)''" prints_hi] c
    by (simp add: trim_examples)
  ultimately show ?thesis using a b c by simp
qed

section \<open>The paths of an accepted request\<close>

lemma run_no_handle:
  assumes "\<not> isLoading r" "\<not> isRunning r" "trim text \<noteq> []" "pyodide r = None"
  shows "runCode text eff r =
     r\<lparr>loadingIndicator := False, runBtnDisabled := False,
       outputElement := outputElement r @
         [(System, ''>>> Running Python code...''),
          (Stderr, ''Runtime Error: '' @ message null_TypeError),
          (System, ''>>> Execution complete.'')]\<rparr>"
  using assms by (simp add: runCode_accepted run_defs ui_defs)

lemma run_no_capture:
  assumes "\<not> isLoading r" "\<not> isRunning r" "trim text \<noteq> []"
    and "pyodide r = Some py" "output_capture py = None"
  shows "runCode text eff r =
     r\<lparr>loadingIndicator := False, runBtnDisabled := False,
       outputElement := outputElement r @
         [(System, ''>>> Running Python code...''),
          (Stderr, ''Runtime Error: '' @ message NameError),
          (System, ''>>> Execution complete.'')],
       executed := executed r @ [ResetCall]\<rparr>"
  using assms by (simp add: runCode_accepted run_defs ui_defs reset_script_def)

lemma run_raises:
  assumes "\<not> isLoading r" "\<not> isRunning r" "trim text \<noteq> []"
    and "pyodide r = Some py" "output_capture py = Some c" "completion eff = Inl e"
  shows "outputElement (runCode text eff r) =
       outputElement r @
         [(System, ''>>> Running Python code...''),
          (Stderr, formatPythonError e),
          (System, ''>>> Execution complete.'')]"
    and "executed (runCode text eff r) =
       executed r @ [ResetCall, StartCall, UserCall (trim text), StopCall]"
    and "\<not> isRunning (runCode text eff r)" and "\<not> isLoading (runCode text eff r)"
    and "\<not> unbinds_capture eff \<Longrightarrow>
       map_option sys_stdout (pyodide (runCode text eff r)) = Some (sys_stdout py)
       \<and> map_option sys_stderr (pyodide (runCode text eff r)) = Some (sys_stderr py)"
    and "unbinds_capture eff \<Longrightarrow>
       map_option output_capture (pyodide (runCode text eff r)) = Some None"
  using assms
  by (simp_all add: runCode_accepted run_defs script_defs ui_defs Let_def
        split: sum.split prod.split)

lemma run_stop_fails:
  assumes "\<not> isLoading r" "\<not> isRunning r" "trim text \<noteq> []"
    and "pyodide r = Some py" "output_capture py = Some c" "completion eff = Inr v"
    and "unbinds_capture eff"
  shows "outputElement (runCode text eff r) =
       outputElement r @
         [(System, ''>>> Running Python code...''),
          (Stderr, formatPythonError NameError),
          (System, ''>>> Execution complete.'')]"
  using assms
  by (simp add: runCode_accepted run_defs script_defs ui_defs Let_def
        split: sum.split prod.split)

lemma accepted_lines:
  assumes "\<not> isLoading r" "\<not> isRunning r" "trim text \<noteq> []"
    and "pyodide r = Some py" "output_capture py = Some c" "\<not> unbinds_capture eff"
  shows "outputElement (runCode text eff r) =
     outputElement r @ [(System, ''>>> Running Python code...'')] @
     (case completion eff of
        Inl e \<Rightarrow> [(Stderr, formatPythonError e)]
      | Inr result \<Rightarrow>
          (if writes_stdout eff \<noteq> [] then [(Stdout, trim (writes_stdout eff))] else []) @
          (if writes_stderr eff \<noteq> [] then [(Stderr, trim (writes_stderr eff))] else []) @
          (if result \<noteq> Undefined \<and> result \<noteq> Null \<and> writes_stdout eff = []
           then [(Stdout, String_js result)] else []) @
          (if writes_stdout eff = [] \<and> writes_stderr eff = []
           then [(System, ''Code executed successfully (no output)'')] else [])) @
     [(System, ''>>> Execution complete.'')]"
  using assms
  by (simp add: runCode_accepted run_defs script_defs ui_defs Let_def nth_append
        split: sum.split prod.split)


subsection \<open>What no path changes\<close>

lemma runPython_frame:
  "isLoading (snd (runPython c s r)) = isLoading r"
  "(pyodide (snd (runPython c s r)) = None) = (pyodide r = None)"
  by (simp_all add: runPython_def split: option.split prod.split)

lemma runPython_frame_eq:
  assumes "runPython c s r = (res, r1)"
  shows "isLoading r1 = isLoading r" "(pyodide r1 = None) = (pyodide r = None)"
  using runPython_frame[of c s r] assms by simp_all

lemma appendOutput_frame:
  "isLoading (appendOutput content t r) = isLoading r"
  "pyodide (appendOutput content t r) = pyodide r"
  by (simp_all add: appendOutput_def)

lemma python_catch_frame:
  "isLoading (python_catch e r) = isLoading r"
  "(pyodide (python_catch e r) = None) = (pyodide r = None)"
  by (simp_all add: python_catch_def appendOutput_frame runPython_frame)

lemma display_frame:
  "isLoading (display v out err r) = isLoading r"
  "pyodide (display v out err r) = pyodide r"
  by (simp_all add: display_def appendOutput_def Let_def)

lemma run_inner_frame:
  "isLoading (run_inner code eff r) = isLoading r"
  "(pyodide (run_inner code eff r) = None) = (pyodide r = None)"
proof -
  obtain res1 r1 where a: "runPython (UserCall code) (user_script eff) r = (res1, r1)"
    by (cases "runPython (UserCall code) (user_script eff) r")
  obtain res2 r2 where b: "runPython StopTwiceCall stop_twice_script r1 = (res2, r2)"
    by (cases "runPython StopTwiceCall stop_twice_script r1")
  note fa = runPython_frame_eq[OF a] and fb = runPython_frame_eq[OF b]
  show "isLoading (run_inner code eff r) = isLoading r"
    using fa fb
    by (cases res1; cases res2)
       (simp_all add: run_inner_def a b python_catch_frame display_frame split: prod.split)
  show "(pyodide (run_inner code eff r) = None) = (pyodide r = None)"
    using fa fb
    by (cases res1; cases res2)
       (simp_all add: run_inner_def a b python_catch_frame display_frame split: prod.split)
qed

lemma run_try_frame:
  "isLoading (run_try code eff r) = isLoading r"
  "(pyodide (run_try code eff r) = None) = (pyodide r = None)"
proof -
  let ?r1 = "appendOutput ''>>> Running Python code...'' System r"
  obtain res2 r2 where a: "runPython ResetCall reset_script ?r1 = (res2, r2)"
    by (cases "runPython ResetCall reset_script ?r1")
  obtain res3 r3 where b: "runPython StartCall start_script r2 = (res3, r3)"
    by (cases "runPython StartCall start_script r2")
  note fa = runPython_frame_eq[OF a] and fb = runPython_frame_eq[OF b]
  show "isLoading (run_try code eff r) = isLoading r"
    using fa fb
    by (cases res2; cases res3)
       (simp_all add: run_try_def a b run_catch_def run_inner_frame appendOutput_frame)
  show "(pyodide (run_try code eff r) = None) = (pyodide r = None)"
    using fa fb
    by (cases res2; cases res3)
       (simp_all add: run_try_def a b run_catch_def run_inner_frame appendOutput_frame)
qed

lemma runCode_frame:
  "isLoading (runCode text eff r) = isLoading r"
  "(pyodide (runCode text eff r) = None) = (pyodide r = None)"
  by (simp_all add: runCode_def run_finally_def run_start_def ui_defs run_try_frame Let_def)

lemma run_all_frame:
  "isLoading (run_all reqs r) = isLoading r"
  "(pyodide (run_all reqs r) = None) = (pyodide r = None)"
  by (induction reqs arbitrary: r) (auto simp: runCode_frame)

lemma runCode_not_running:
  "\<not> isLoading r \<Longrightarrow> \<not> isRunning r \<Longrightarrow> \<not> isRunning (runCode text eff r)"
  by (simp add: runCode_def run_finally_def ui_defs Let_def)

section \<open>Blank source text\<close>

text \<open>
  A request with blank text that arrives while the runner is still loading is answered
  with the loading notice, not with "No code to execute.": the loading and running guards
  come first.
\<close>

theorem blank_source_while_loading:
  "trim [CHR 0x20, CHR 0x0A] = []
   \<and> outputElement (runCode [CHR 0x20, CHR 0x0A] prints_hi (new_PythonRunner blank_page)) =
       [(System, ''Python environment is still loading. Please wait...'')]
   \<and> outputElement (runCode [CHR 0x20, CHR 0x0A] prints_hi (new_PythonRunner blank_page)) \<noteq>
       [(System, ''No code to execute.'')]"
  by (simp add: trim_examples runCode_loading new_runner_fields)

text \<open>
  C10 (amended). If the runner is neither loading nor running and the editor's text is
  empty or consists of white space only, runCode appends the single System line "No code
  to execute." and changes nothing else: the runner does not become running, and neither
  the interpreter nor the capture is touched. In every state a request with such a text
  is refused with a single System line and no other change, so an accepted execution
  requires source text that is not blank.
\<close>

theorem blank_source_refused:
  "(\<not> isLoading r \<and> \<not> isRunning r \<and> trim text = [] \<longrightarrow>
      runCode text eff r =
        r\<lparr>outputElement := outputElement r @ [(System, ''No code to execute.'')]\<rparr>)
   \<and> (trim text = [] \<longrightarrow> rejected r (runCode text eff r))"
proof -
  have "rejected r (runCode text eff r)" if blank: "trim text = []"
  proof (cases "isLoading r")
    case True
    then show ?thesis by (rule rejectedI[OF runCode_loading])
  next
    case False
    show ?thesis
    proof (cases "isRunning r")
      case True
      show ?thesis by (rule rejectedI[OF runCode_running[OF False True]])
    next
      case notrunning: False
      show ?thesis by (rule rejectedI[OF runCode_empty[OF False notrunning blank]])
    qed
  qed
  then show ?thesis by (simp add: runCode_empty)
qed

theorem blank_source_refused_witness:
  "\<not> isLoading ready_runner \<and> \<not> isRunning ready_runner \<and> trim [CHR 0x20, CHR 0x0A] = []
   \<and> runCode [CHR 0x20, CHR 0x0A] prints_hi ready_runner =
       ready_runner\<lparr>outputElement := outputElement ready_runner @
          [(System, ''No code to execute.'')]\<rparr>
   \<and> rejected ready_runner (runCode [CHR 0x20, CHR 0x0A] prints_hi ready_runner)"
proof -
  have h: "\<not> isLoading ready_runner \<and> \<not> isRunning ready_runner
      \<and> trim [CHR 0x20, CHR 0x0A] = []"
    by (simp add: ready_runner_fields trim_examples)
  note inst = blank_source_refused[of ready_runner "[CHR 0x20, CHR 0x0A]" prints_hi]
  have c1: "runCode [CHR 0x20, CHR 0x0A] prints_hi ready_runner =
       ready_runner\<lparr>outputElement := outputElement ready_runner @
          [(System, ''No code to execute.'')]\<rparr>"
    by (rule mp[OF conjunct1[OF inst] h])
  have c2: "rejected ready_runner (runCode [CHR 0x20, CHR 0x0A] prints_hi ready_runner)"
    by (rule mp[OF conjunct2[OF inst]]) (simp add: trim_examples)
  show ?thesis by (intro conjI h[THEN conjunct1] h[THEN conjunct2, THEN conjunct1]
        h[THEN conjunct2, THEN conjunct2] c1 c2)
qed

section \<open>Classification of the outcome\<close>




section \<open>The shape of a run's lines\<close>

text \<open>
  A program that writes to sys.stderr only and ends with a value: runCode shows the
  captured stderr first and the stringified value, a Stdout line, after it.
\<close>

theorem value_shown_after_stderr:
  "map fst (outputElement (runCode ''w()'' warns_then_value ready_runner)) =
     [System, System, System, Stderr, Stdout, System]
   \<and> \<not> no_stdout_after_stderr
         (map fst (outputElement (runCode ''w()'' warns_then_value ready_runner)))"
proof -
  have a: "\<not> unbinds_capture warns_then_value" by (simp add: warns_then_value_def)
  show ?thesis
    by (simp add: accepted_lines[OF ready_runner_fields(1,2) _ ready_runner_fields(3) _ a]
          trim_examples ready_runner_fields no_stdout_after_stderr_def)
       (simp add: warns_then_value_def)
qed

text \<open>
  C6 (amended). For every accepted run (String being taken to return on the value of the
  evaluation) the lines appended are the System line "Running
  Python code...", then a middle part, then the System line "Execution complete."; the
  types of the middle lines are one of: stdout; stderr; stdout, stderr; stderr, stdout;
  stdout, system; system. So there is at most one Stdout line and at most one Stderr
  line; captured stdout comes before captured stderr, while a stringified value, which
  is a Stdout line too, comes after it. The runner is not running when runCode returns,
  and the lines of a run are appended as one block to what was there.
\<close>

theorem run_output_shape:
  assumes "\<not> isLoading r" "\<not> isRunning r" "trim text \<noteq> []"
  shows "\<exists>mid. outputElement (runCode text eff r) =
            outputElement r @ [(System, ''>>> Running Python code...'')] @ mid @
            [(System, ''>>> Execution complete.'')]
          \<and> map fst mid \<in> {[Stdout], [Stderr], [Stdout, Stderr], [Stderr, Stdout],
                             [Stdout, System], [System]}
          \<and> \<not> isRunning (runCode text eff r) \<and> \<not> isLoading (runCode text eff r)"
proof -
  have flags: "\<not> isRunning (runCode text eff r) \<and> \<not> isLoading (runCode text eff r)"
    using assms by (simp add: runCode_not_running runCode_frame)
  have "\<exists>mid. outputElement (runCode text eff r) =
            outputElement r @ [(System, ''>>> Running Python code...'')] @ mid @
            [(System, ''>>> Execution complete.'')]
          \<and> map fst mid \<in> {[Stdout], [Stderr], [Stdout, Stderr], [Stderr, Stdout],
                             [Stdout, System], [System]}"
  proof (cases "pyodide r")
    case None
    show ?thesis
      by (rule exI[of _ "[(Stderr, ''Runtime Error: '' @ message null_TypeError)]"])
         (simp add: run_no_handle[OF assms None])
  next
    case (Some py)
    show ?thesis
    proof (cases "output_capture py")
      case None
      show ?thesis
        by (rule exI[of _ "[(Stderr, ''Runtime Error: '' @ message NameError)]"])
           (simp add: run_no_capture[OF assms Some None])
    next
      case c: (Some c)
      show ?thesis
      proof (cases "completion eff")
        case (Inl e)
        show ?thesis
          by (rule exI[of _ "[(Stderr, formatPythonError e)]"])
             (simp add: run_raises(1)[OF assms Some c Inl])
      next
        case (Inr v)
        show ?thesis
        proof (cases "unbinds_capture eff")
          case True
          show ?thesis
            by (rule exI[of _ "[(Stderr, formatPythonError NameError)]"])
               (simp add: run_stop_fails[OF assms Some c Inr True])
        next
          case False
          let ?mid = "(if writes_stdout eff \<noteq> [] then [(Stdout, trim (writes_stdout eff))] else []) @
            (if writes_stderr eff \<noteq> [] then [(Stderr, trim (writes_stderr eff))] else []) @
            (if v \<noteq> Undefined \<and> v \<noteq> Null \<and> writes_stdout eff = []
             then [(Stdout, String_js v)] else []) @
            (if writes_stdout eff = [] \<and> writes_stderr eff = []
             then [(System, ''Code executed successfully (no output)'')] else [])"
          show ?thesis
            by (rule exI[of _ ?mid]) (simp add: accepted_lines[OF assms Some c False] Inr)
        qed
      qed
    qed
  qed
  with flags show ?thesis by simp
qed

theorem run_output_shape_witness:
  "\<not> isLoading ready_runner \<and> \<not> isRunning ready_runner \<and> trim ''w()'' \<noteq> []
   \<and> (\<exists>mid. outputElement (runCode ''w()'' warns_then_value ready_runner) =
            outputElement ready_runner @ [(System, ''>>> Running Python code...'')] @ mid @
            [(System, ''>>> Execution complete.'')]
          \<and> map fst mid \<in> {[Stdout], [Stderr], [Stdout, Stderr], [Stderr, Stdout],
                             [Stdout, System], [System]}
          \<and> \<not> isRunning (runCode ''w()'' warns_then_value ready_runner)
          \<and> \<not> isLoading (runCode ''w()'' warns_then_value ready_runner))"
proof -
  have b: "trim ''w()'' \<noteq> []" by (simp add: trim_examples)
  show ?thesis
    by (intro conjI ready_runner_fields(1,2) b
        run_output_shape[OF ready_runner_fields(1,2) b, of warns_then_value])
qed

section \<open>Initialisation\<close>

lemma init_complete_lines:
  "outputElement (init_complete b r) =
     outputElement r @
     (case b of
        LoadRejected e \<Rightarrow> [(Stderr, ''Error initializing Python: '' @ message e)]
      | Loaded py (Some e) \<Rightarrow> [(Stderr, ''Error initializing Python: '' @ message e)]
      | Loaded py None \<Rightarrow>
          [(System, ''Python environment initialized successfully!''),
           (System, ''You can now run Python code.'')])"
  "\<not> isLoading (init_complete b r)"
  by (simp_all add: init_defs ui_defs runPython_def script_defs
        split: boot.split option.split prod.split sum.split)

lemma init_begin_fields:
  "outputElement (init_begin r) = outputElement r" "isLoading (init_begin r) = isLoading r"
  by (simp_all add: init_begin_def ui_defs)

text \<open>
  init has no guard. Two calls in immediate succession, the second made while the first is
  suspended in the load, both complete: the messages appear twice. A call made once the
  runner is ready is not a no-op either.
\<close>

theorem second_init_repeats:
  "outputElement
     (init_complete (Loaded console_python None)
        (init_complete (Loaded console_python None)
           (init_begin (new_PythonRunner blank_page)))) =
     [(System, ''Python environment initialized successfully!''),
      (System, ''You can now run Python code.''),
      (System, ''Python environment initialized successfully!''),
      (System, ''You can now run Python code.'')]
   \<and> init (Loaded console_python None) ready_runner \<noteq> ready_runner"
proof -
  have "outputElement (init (Loaded console_python None) ready_runner) \<noteq>
      outputElement ready_runner"
    by (simp add: init_def init_complete_lines init_begin_fields)
  then have "init (Loaded console_python None) ready_runner \<noteq> ready_runner"
    by auto
  then show ?thesis
    by (simp add: init_complete_lines init_begin_fields new_runner_fields)
qed

text \<open>
  C4 (amended). init is not guarded against a second call. The constructor starts it
  once, on a runner that is loading and has shown nothing; when that call completes the
  runner has left the loading state, once, and shows exactly one group of messages: the
  two System lines of a success, or the one Stderr line of a failure. Every call of init,
  in whatever state, ends the loading state and appends such a group again.
\<close>

theorem init_runs_once_per_instance:
  "isLoading (new_PythonRunner p) \<and> outputElement (new_PythonRunner p) = []
   \<and> \<not> isLoading (init_complete b (new_PythonRunner p))
   \<and> outputElement (init_complete b (new_PythonRunner p)) =
       (case b of
          LoadRejected e \<Rightarrow> [(Stderr, ''Error initializing Python: '' @ message e)]
        | Loaded py (Some e) \<Rightarrow> [(Stderr, ''Error initializing Python: '' @ message e)]
        | Loaded py None \<Rightarrow>
            [(System, ''Python environment initialized successfully!''),
             (System, ''You can now run Python code.'')])
   \<and> \<not> isLoading (init b r)
   \<and> outputElement (init b r) =
       outputElement r @
       (case b of
          LoadRejected e \<Rightarrow> [(Stderr, ''Error initializing Python: '' @ message e)]
        | Loaded py (Some e) \<Rightarrow> [(Stderr, ''Error initializing Python: '' @ message e)]
        | Loaded py None \<Rightarrow>
            [(System, ''Python environment initialized successfully!''),
             (System, ''You can now run Python code.'')])"
  by (simp add: init_def init_complete_lines init_begin_fields new_runner_fields)

section \<open>A failed initialisation\<close>

lemma dead_runCode:
  assumes "\<not> isLoading r" "\<not> isRunning r"
    and "pyodide r = None \<or> pyodide r = Some py \<and> output_capture py = None"
  shows "\<not> isLoading (runCode t e r)" "\<not> isRunning (runCode t e r)"
    "statusText (runCode t e r) = statusText r" "pyodide (runCode t e r) = pyodide r"
    "set (executed (runCode t e r)) \<subseteq> insert ResetCall (set (executed r))"
proof -
  have "\<not> isLoading (runCode t e r) \<and> \<not> isRunning (runCode t e r)
      \<and> statusText (runCode t e r) = statusText r \<and> pyodide (runCode t e r) = pyodide r
      \<and> set (executed (runCode t e r)) \<subseteq> insert ResetCall (set (executed r))"
  proof (cases "trim t = []")
    case True
    then show ?thesis using assms(1,2) by (auto simp: runCode_empty)
  next
    case False
    from assms(3) show ?thesis
    proof
      assume "pyodide r = None"
      then show ?thesis
        using assms(1,2) by (auto simp: run_no_handle[OF assms(1,2) False])
    next
      assume "pyodide r = Some py \<and> output_capture py = None"
      then show ?thesis
        using assms(1,2) by (auto simp: run_no_capture[OF assms(1,2) False])
    qed
  qed
  then show "\<not> isLoading (runCode t e r)" "\<not> isRunning (runCode t e r)"
    "statusText (runCode t e r) = statusText r" "pyodide (runCode t e r) = pyodide r"
    "set (executed (runCode t e r)) \<subseteq> insert ResetCall (set (executed r))"
    by simp_all
qed

lemma dead_run_all:
  assumes "\<not> isLoading r" "\<not> isRunning r"
    and "pyodide r = None \<or> pyodide r = Some py \<and> output_capture py = None"
  shows "\<not> isLoading (run_all reqs r) \<and> \<not> isRunning (run_all reqs r)
    \<and> statusText (run_all reqs r) = statusText r \<and> pyodide (run_all reqs r) = pyodide r
    \<and> set (executed (run_all reqs r)) \<subseteq> insert ResetCall (set (executed r))"
  using assms
proof (induction reqs arbitrary: r)
  case Nil
  then show ?case by auto
next
  case (Cons q reqs)
  obtain t e where q: "q = (t, e)" by (cases q)
  note step = dead_runCode[OF Cons.prems, of t e]
  have dead: "pyodide (runCode t e r) = None
      \<or> pyodide (runCode t e r) = Some py \<and> output_capture py = None"
    using Cons.prems(3) step(4) by simp
  from Cons.IH[OF step(1,2) dead] step show ?case
    by (auto simp: q)
qed

lemma failed_init_fields:
  assumes "b = LoadRejected e \<or> b = Loaded py (Some e)"
  shows "\<not> isLoading (init_complete b (new_PythonRunner p))"
    "\<not> isRunning (init_complete b (new_PythonRunner p))"
    "statusText (init_complete b (new_PythonRunner p)) = ''Python failed to load''"
    "outputElement (init_complete b (new_PythonRunner p)) =
       [(Stderr, ''Error initializing Python: '' @ message e)]"
    "set (executed (init_complete b (new_PythonRunner p))) \<subseteq> {SetupCall}"
    "pyodide (init_complete b (new_PythonRunner p)) =
       (case b of LoadRejected _ \<Rightarrow> None | Loaded py _ \<Rightarrow> Some py)"
  using assms
  by (auto simp: init_defs ui_defs runPython_def script_defs)

text \<open>
  Once the load has failed, a request with source text is not turned away at a guard: it
  is accepted, announced, fails on the missing handle, and is reported as a runtime error.
\<close>

theorem run_after_failed_load_not_rejected:
  "state_of load_failed_runner = Failed
   \<and> outputElement (runCode ''print(1)'' prints_hi load_failed_runner) =
       [(Stderr, ''Error initializing Python: Failed to fetch''),
        (System, ''>>> Running Python code...''),
        (Stderr, ''Runtime Error: Cannot read properties of null (reading runPython)''),
        (System, ''>>> Execution complete.'')]
   \<and> \<not> rejected load_failed_runner (runCode ''print(1)'' prints_hi load_failed_runner)"
proof -
  have a: "\<not> isLoading load_failed_runner" "\<not> isRunning load_failed_runner"
    "trim ''print(1)'' \<noteq> []" "pyodide load_failed_runner = None"
    by (simp_all add: load_failed_runner_eq trim_examples)
  show ?thesis
    by (simp add: run_no_handle[OF a] rejected_def state_of_def)
       (simp add: load_failed_runner_eq null_TypeError_def)
qed

text \<open>
  C5 (amended). When initialisation fails, because the load is rejected or because the
  setup script raises in the newly loaded interpreter, the failure is shown as one Stderr
  line "Error initializing Python: ..." and the runner stays Failed through every later
  sequence of requests: no program of the user is ever handed to an interpreter. A later
  request with source text is not refused at a guard, though: it is accepted, appends the
  start line, fails before any evaluation (on the null handle, or on the unbound capture
  object), appends the Stderr line "Runtime Error: ..." and the end line, and leaves the
  runner Failed.
\<close>

theorem failed_init_is_terminal:
  assumes "b = LoadRejected e \<or> b = Loaded py (Some e) \<and> output_capture py = None"
  shows "outputElement (init_complete b (new_PythonRunner p)) =
       [(Stderr, ''Error initializing Python: '' @ message e)]
     \<and> state_of (run_all reqs (init_complete b (new_PythonRunner p))) = Failed
     \<and> (\<forall>code. UserCall code \<notin>
           set (executed (run_all reqs (init_complete b (new_PythonRunner p)))))
     \<and> (trim text \<noteq> [] \<longrightarrow>
          outputElement (runCode text eff (run_all reqs (init_complete b (new_PythonRunner p)))) =
            outputElement (run_all reqs (init_complete b (new_PythonRunner p))) @
            [(System, ''>>> Running Python code...''),
             (Stderr, ''Runtime Error: '' @
                message (case b of LoadRejected _ \<Rightarrow> null_TypeError | Loaded _ _ \<Rightarrow> NameError)),
             (System, ''>>> Execution complete.'')]
          \<and> state_of (runCode text eff (run_all reqs (init_complete b (new_PythonRunner p)))) =
            Failed)"
proof -
  let ?F = "init_complete b (new_PythonRunner p)"
  let ?R = "run_all reqs ?F"
  have b': "b = LoadRejected e \<or> b = Loaded py (Some e)" using assms by blast
  note F = failed_init_fields[OF b', of p]
  have deadF: "pyodide ?F = None \<or> pyodide ?F = Some py \<and> output_capture py = None"
    using assms F(6) by auto
  note R = dead_run_all[OF F(1,2) deadF, of reqs]
  have flags: "\<not> isLoading ?R" "\<not> isRunning ?R" using R by simp_all
  have status: "statusText ?R = ''Python failed to load''" using R F(3) by simp
  have handle: "pyodide ?R = pyodide ?F" using R by simp
  have failed: "state_of ?R = Failed"
    using flags status by (simp add: state_of_def)
  have nouser: "UserCall code \<notin> set (executed ?R)" for code
  proof
    assume "UserCall code \<in> set (executed ?R)"
    moreover have "set (executed ?R) \<subseteq> insert ResetCall (set (executed ?F))"
      using R by simp
    ultimately have "UserCall code \<in> insert ResetCall (set (executed ?F))" by blast
    with F(5) show False by auto
  qed
  have run: "outputElement (runCode text eff ?R) =
            outputElement ?R @
            [(System, ''>>> Running Python code...''),
             (Stderr, ''Runtime Error: '' @
                message (case b of LoadRejected _ \<Rightarrow> null_TypeError | Loaded _ _ \<Rightarrow> NameError)),
             (System, ''>>> Execution complete.'')]
          \<and> state_of (runCode text eff ?R) = Failed"
    if nonblank: "trim text \<noteq> []"
    using assms
  proof
    assume l: "b = LoadRejected e"
    then have "pyodide ?R = None" using handle F(6) by simp
    from run_no_handle[OF flags nonblank this, of eff] show ?thesis
      using flags status by (simp add: l state_of_def)
  next
    assume l: "b = Loaded py (Some e) \<and> output_capture py = None"
    then have "pyodide ?R = Some py" using handle F(6) by simp
    from run_no_capture[OF flags nonblank this, of eff] l show ?thesis
      using flags status by (simp add: state_of_def)
  qed
  show ?thesis
    using F(4) failed nouser run by blast
qed

theorem failed_init_is_terminal_witness:
  "output_capture console_python = None \<and> trim ''print(1)'' \<noteq> []
   \<and> outputElement setup_failed_runner =
       [(Stderr, ''Error initializing Python: '' @ message ModuleNotFoundError)]
   \<and> state_of (run_all [(''print(1)'', prints_hi), (''1+1'', value_two)] setup_failed_runner) =
       Failed
   \<and> executed (run_all [(''print(1)'', prints_hi), (''1+1'', value_two)] setup_failed_runner) =
       [SetupCall, ResetCall, ResetCall]
   \<and> outputElement (runCode ''print(1)'' prints_hi load_failed_runner) =
       outputElement load_failed_runner @
       [(System, ''>>> Running Python code...''),
        (Stderr, ''Runtime Error: '' @ message null_TypeError),
        (System, ''>>> Execution complete.'')]
   \<and> state_of (runCode ''print(1)'' prints_hi load_failed_runner) = Failed"
proof -
  have a: "output_capture console_python = None" by (simp add: console_python_def)
  have b: "trim ''print(1)'' \<noteq> []" by (simp add: trim_examples)
  have h1: "Loaded console_python (Some ModuleNotFoundError) = LoadRejected ModuleNotFoundError
      \<or> Loaded console_python (Some ModuleNotFoundError) =
         Loaded console_python (Some ModuleNotFoundError)
        \<and> output_capture console_python = None"
    using a by simp
  have h2: "LoadRejected network_error = LoadRejected network_error
      \<or> LoadRejected network_error = Loaded console_python (Some network_error)
        \<and> output_capture console_python = None"
    by simp
  note i1 = failed_init_is_terminal[OF h1, of blank_page
      "[(''print(1)'', prints_hi), (''1+1'', value_two)]" "''print(1)''" prints_hi]
  note i2 = failed_init_is_terminal[OF h2, of blank_page "[]" "''print(1)''" prints_hi]
  have c1: "outputElement setup_failed_runner =
       [(Stderr, ''Error initializing Python: '' @ message ModuleNotFoundError)]"
    using i1 by (simp add: setup_failed_runner_def)
  have c2: "state_of (run_all [(''print(1)'', prints_hi), (''1+1'', value_two)]
        setup_failed_runner) = Failed"
    using i1 by (simp add: setup_failed_runner_def)
  have d: "\<not> isLoading setup_failed_runner" "\<not> isRunning setup_failed_runner"
    "pyodide setup_failed_runner = Some \<lparr>sys_stdout = 0, sys_stderr = 1, streams = [[], []],
          output_capture = None\<rparr>"
    "executed setup_failed_runner = [SetupCall]"
    by (simp_all add: setup_failed_runner_eq)
  have c3: "executed (run_all [(''print(1)'', prints_hi), (''1+1'', value_two)]
        setup_failed_runner) = [SetupCall, ResetCall, ResetCall]"
    by (simp add: run_no_capture d trim_examples)
  have c4: "outputElement (runCode ''print(1)'' prints_hi load_failed_runner) =
       outputElement load_failed_runner @
       [(System, ''>>> Running Python code...''),
        (Stderr, ''Runtime Error: '' @ message null_TypeError),
        (System, ''>>> Execution complete.'')]
     \<and> state_of (runCode ''print(1)'' prints_hi load_failed_runner) = Failed"
    using i2 b by (simp add: load_failed_runner_def)
  show ?thesis
    by (intro conjI a b c1 c2 c3 conjunct1[OF c4] conjunct2[OF c4])
qed

section \<open>An evaluation that throws\<close>








section \<open>isReady\<close>

text \<open>
  When the load succeeds and the setup script then raises, init reports the failure, yet
  the handle has already been assigned: isReady answers true in a Failed runner.
\<close>

theorem isReady_after_setup_failure:
  "state_of setup_failed_runner = Failed \<and> isReady setup_failed_runner
   \<and> \<not> (isReady setup_failed_runner \<longleftrightarrow>
          state_of setup_failed_runner \<noteq> Uninitialized
          \<and> state_of setup_failed_runner \<noteq> Loading
          \<and> state_of setup_failed_runner \<noteq> Failed)"
  by (simp add: setup_failed_runner_eq state_of_def isReady_def)

text \<open>
  C8 (amended). isReady is a query on the runner's state, which it does not change, and
  is true if and only if the runner is no longer loading and the handle is not null. So it
  is false from construction until init completes, false for ever after a rejected load,
  and true for ever after a successful initialisation, whether the runner is ready or
  running.
\<close>

theorem isReady_query:
  "isReady r = (\<not> isLoading r \<and> pyodide r \<noteq> None)
   \<and> \<not> isReady (new_PythonRunner p)
   \<and> \<not> isReady (run_all reqs (init_complete (LoadRejected e) (new_PythonRunner p)))
   \<and> isReady (run_all reqs (init_complete (Loaded py None) (new_PythonRunner p)))
   \<and> isReady (run_start r) = isReady r"
proof -
  have a: "pyodide (init_complete (LoadRejected e) (new_PythonRunner p)) = None"
    by (simp add: init_defs ui_defs)
  have b: "pyodide (init_complete (Loaded py None) (new_PythonRunner p)) \<noteq> None"
    by (simp add: init_defs ui_defs runPython_def script_defs)
  show ?thesis
    by (simp add: isReady_def run_all_frame init_complete_lines(2) new_runner_fields
          run_start_fields a b)
qed

section \<open>A capture that was never stopped\<close>

lemma paired_capture_restores:
  assumes "output_capture py \<noteq> None"
  shows "sys_stdout (snd (stop_script (snd (start_script (snd (reset_script py)))))) =
       sys_stdout py"
    and "sys_stderr (snd (stop_script (snd (start_script (snd (reset_script py)))))) =
       sys_stderr py"
  using assms by (auto simp: script_defs Let_def)

text \<open>
  C7. The specification requires that a capture begun (reset, start_capture) after an
  earlier capture was begun and never stopped still ends with sys.stdout and sys.stderr
  bound to the true original streams. OutputCapture does not do that: reset takes its
  snapshot of the originals on every call. In an interpreter just set up, whose
  sys.stdout and sys.stderr are the console streams 0 and 1, the first begin binds them
  to its buffers 4 and 5; the second begin's reset records those buffers as the
  originals; and the stop that follows rebinds sys.stdout and sys.stderr to the buffers 4
  and 5 of the abandoned capture, not to the console streams.
\<close>

theorem abandoned_capture_not_restored:
  "(let py0 = snd (setup_script None console_python);
        py1 = snd (start_script (snd (reset_script py0)));
        py2 = snd (start_script (snd (reset_script py1)));
        py3 = snd (stop_script py2)
    in sys_stdout py0 = 0 \<and> sys_stderr py0 = 1
       \<and> sys_stdout py1 = 4 \<and> sys_stderr py1 = 5
       \<and> map_option stdout (output_capture py1) = Some 4
       \<and> map_option stderr (output_capture py1) = Some 5
       \<and> map_option original_stdout (output_capture py2) = Some 4
       \<and> map_option original_stderr (output_capture py2) = Some 5
       \<and> sys_stdout py3 = 4 \<and> sys_stderr py3 = 5
       \<and> sys_stdout py3 \<noteq> sys_stdout py0 \<and> sys_stderr py3 \<noteq> sys_stderr py0)"
  by (simp add: script_defs console_python_def Let_def)

subsection \<open>Stopping twice\<close>

text \<open>
  C9. stop_capture is idempotent: a second call right after a first returns the same
  pair of texts and leaves the interpreter in the same state, with sys.stdout and
  sys.stderr bound to the recorded originals; the script of the success path, which calls
  stop_capture twice, is therefore the same computation as the single call.
\<close>

theorem stop_capture_idempotent:
  "stop_capture self (snd (stop_capture self py)) = stop_capture self py
   \<and> sys_stdout (snd (stop_capture self py)) = original_stdout self
   \<and> sys_stderr (snd (stop_capture self py)) = original_stderr self
   \<and> stop_twice_script py = stop_script py"
  by (simp add: stop_capture_def stop_twice_script_def stop_script_def Let_def
        split: option.split)

end
